theory Spec2Isabelle
  imports
    Main
    "HOL-Library.Char_ord"
    "HOL-Library.List_Lexorder"
    "HOL-Library.Product_Lexorder"
    "HOL-Library.Option_ord"
    "HOL-Library.Sublist"
    "HOL-Library.Multiset"
begin

section \<open>Python strings\<close>

text \<open>
  The script \<^verbatim>\<open>tools/triage_py/triage_version.py\<close> works on Python \<^verbatim>\<open>str\<close> values.
  A \<^typ>\<open>char\<close> stands for the Unicode code point of the same number, so the model covers
  the strings whose code points are below 256; the whitespace and line-boundary tables
  below are the ones of CPython restricted to that range.
\<close>

definition isspace :: "char \<Rightarrow> bool" where
  \<comment> \<open>\<^verbatim>\<open>str.isspace\<close> on one character\<close>
  "isspace c \<longleftrightarrow> c \<in> {CHR 0x09, CHR 0x0A, CHR 0x0B, CHR 0x0C, CHR 0x0D,
     CHR 0x1C, CHR 0x1D, CHR 0x1E, CHR 0x1F, CHR 0x20, CHR 0x85, CHR 0xA0}"

definition is_linebreak :: "char \<Rightarrow> bool" where
  \<comment> \<open>the line boundaries of \<^verbatim>\<open>str.splitlines\<close>\<close>
  "is_linebreak c \<longleftrightarrow> c \<in> {CHR 0x0A, CHR 0x0B, CHR 0x0C, CHR 0x0D,
     CHR 0x1C, CHR 0x1D, CHR 0x1E, CHR 0x85}"

definition strip :: "string \<Rightarrow> string" where
  \<comment> \<open>\<^verbatim>\<open>s.strip()\<close>\<close>
  "strip s = rev (dropWhile isspace (rev (dropWhile isspace s)))"

fun split_acc :: "string \<Rightarrow> string \<Rightarrow> string list" where
  "split_acc w [] = (if w = [] then [] else [w])"
| "split_acc w (c # cs) =
     (if isspace c then (if w = [] then split_acc [] cs else w # split_acc [] cs)
      else split_acc (w @ [c]) cs)"

definition split :: "string \<Rightarrow> string list" where
  \<comment> \<open>\<^verbatim>\<open>s.split()\<close>: the maximal runs of non-whitespace characters\<close>
  "split s = split_acc [] s"

fun splitlines_acc :: "string \<Rightarrow> string \<Rightarrow> string list" where
  "splitlines_acc l [] = (if l = [] then [] else [l])"
| "splitlines_acc l [c] = (if is_linebreak c then [l] else [l @ [c]])"
| "splitlines_acc l (c # d # cs) =
     (if c = CHR 0x0D \<and> d = CHR 0x0A then l # splitlines_acc [] cs
      else if is_linebreak c then l # splitlines_acc [] (d # cs)
      else splitlines_acc (l @ [c]) (d # cs))"

definition splitlines :: "string \<Rightarrow> string list" where
  \<comment> \<open>\<^verbatim>\<open>s.splitlines()\<close>: line breaks are not kept, \<^verbatim>\<open>\r\n\<close> is one break\<close>
  "splitlines s = splitlines_acc [] s"

definition startswith :: "string \<Rightarrow> string \<Rightarrow> bool" where
  \<comment> \<open>\<^verbatim>\<open>s.startswith(p)\<close>\<close>
  "startswith s p \<longleftrightarrow> take (length p) s = p"

function replace_from :: "string \<Rightarrow> string \<Rightarrow> string \<Rightarrow> string" where
  "replace_from old new [] = []"
| "replace_from old new (c # cs) =
     (if old \<noteq> [] \<and> startswith (c # cs) old
      then new @ replace_from old new (drop (length old) (c # cs))
      else c # replace_from old new cs)"
  by pat_completeness auto
termination
  by (relation "measure (\<lambda>(old, new, s). length s)") (auto simp: neq_Nil_conv)

definition replace :: "string \<Rightarrow> string \<Rightarrow> string \<Rightarrow> string" where
  \<comment> \<open>\<^verbatim>\<open>s.replace(old, new)\<close>, the occurrences taken from the left; an empty \<^verbatim>\<open>old\<close>
      matches before every character and at the end\<close>
  "replace s old new =
     (if old = [] then new @ concat (map (\<lambda>c. c # new) s) else replace_from old new s)"

fun join :: "string \<Rightarrow> string list \<Rightarrow> string" where
  \<comment> \<open>\<^verbatim>\<open>sep.join(xs)\<close>\<close>
  "join sep [] = []"
| "join sep [x] = x"
| "join sep (x # y # ys) = x @ sep @ join sep (y # ys)"

definition digit_char :: "nat \<Rightarrow> char" where
  "digit_char n = char_of (48 + n)"

function str_nat :: "nat \<Rightarrow> string" where
  "str_nat n = (if n < 10 then [digit_char n] else str_nat (n div 10) @ [digit_char (n mod 10)])"
  by pat_completeness auto
termination
  by (relation "measure id") auto

declare str_nat.simps [simp del]

definition str_int :: "int \<Rightarrow> string" where
  \<comment> \<open>\<^verbatim>\<open>str(i)\<close> for an integer\<close>
  "str_int i = (if i < 0 then CHR ''-'' # str_nat (nat (- i)) else str_nat (nat i))"

definition apos :: string where
  \<comment> \<open>the apostrophe of the messages\<close>
  "apos = [CHR 0x27]"

definition path_join :: "string \<Rightarrow> string \<Rightarrow> string" where
  \<comment> \<open>\<^verbatim>\<open>os.path.join(a, b)\<close> of posixpath\<close>
  "path_join a b =
     (if startswith b ''/'' then b
      else if a = [] \<or> last a = CHR ''/'' then a @ b
      else a @ ''/'' @ b)"

section \<open>The imported class \<^verbatim>\<open>packaging.version.Version\<close>\<close>

text \<open>
  The script imports \<^verbatim>\<open>Version\<close> from the \<^verbatim>\<open>packaging\<close> library, which is not part
  of the repository. The model follows the library: the constructor matches the string
  against the PEP 440 pattern (case-insensitive, surrounding whitespace ignored) and
  raises \<^verbatim>\<open>InvalidVersion\<close> when it does not match; two versions are compared through
  their comparison keys (\<^verbatim>\<open>_cmpkey\<close>).
\<close>

record version =
  epoch :: nat
  release :: "nat list"
  pre :: "(string \<times> nat) option"
  post :: "nat option"
  dev :: "nat option"
  local_part :: "(string + nat) list option"

definition is_digit :: "char \<Rightarrow> bool" where
  "is_digit c \<longleftrightarrow> c \<in> set ''0123456789''"

definition is_alnum :: "char \<Rightarrow> bool" where
  "is_alnum c \<longleftrightarrow> c \<in> set ''abcdefghijklmnopqrstuvwxyz0123456789''"

definition is_sep :: "char \<Rightarrow> bool" where
  \<comment> \<open>the separators \<^verbatim>\<open>[-_.]\<close> of the pattern\<close>
  "is_sep c \<longleftrightarrow> c \<in> set ''-_.''"

definition lower_char :: "char \<Rightarrow> char" where
  "lower_char c =
     (if c \<in> set ''ABCDEFGHIJKLMNOPQRSTUVWXYZ'' then char_of (of_char c + (32::nat)) else c)"

definition int_of_digits :: "string \<Rightarrow> nat" where
  \<comment> \<open>\<^verbatim>\<open>int(s)\<close> on a string of decimal digits; 0 on the empty string, which stands for
      an absent number\<close>
  "int_of_digits s = foldl (\<lambda>n c. 10 * n + (of_char c - 48)) 0 s"

definition opt_sep :: "string \<Rightarrow> string" where
  \<comment> \<open>\<^verbatim>\<open>[-_.]?\<close>\<close>
  "opt_sep s = (case s of [] \<Rightarrow> [] | c # r \<Rightarrow> if is_sep c then r else s)"

definition match_letter :: "string list \<Rightarrow> string \<Rightarrow> (string \<times> string) option" where
  \<comment> \<open>the first of the given words that the string starts with, and the rest\<close>
  "match_letter ws s =
     (case filter (startswith s) ws of [] \<Rightarrow> None | w # _ \<Rightarrow> Some (w, drop (length w) s))"

definition opt_number :: "string \<Rightarrow> nat \<times> string" where
  \<comment> \<open>\<^verbatim>\<open>[-_.]?([0-9]+)?\<close> after a letter: the number (0 when absent) and the rest\<close>
  "opt_number s =
     (let r = opt_sep s in (int_of_digits (takeWhile is_digit r), dropWhile is_digit r))"

definition parse_epoch :: "string \<Rightarrow> nat \<times> string" where
  \<comment> \<open>\<^verbatim>\<open>(?:([0-9]+)!)?\<close>\<close>
  "parse_epoch s =
     (let d = takeWhile is_digit s; r = dropWhile is_digit s
      in if d \<noteq> [] \<and> startswith r ''!'' then (int_of_digits d, tl r) else (0, s))"

function release_tail :: "string \<Rightarrow> nat list \<times> string" where
  \<comment> \<open>\<^verbatim>\<open>(?:\.[0-9]+)*\<close>\<close>
  "release_tail s =
     (case s of
        [] \<Rightarrow> ([], s)
      | c # r \<Rightarrow>
          if c = CHR ''.'' \<and> takeWhile is_digit r \<noteq> []
          then (let (ns, rest) = release_tail (dropWhile is_digit r)
                in (int_of_digits (takeWhile is_digit r) # ns, rest))
          else ([], s))"
  by pat_completeness auto
termination
  by (relation "measure length") (auto simp: less_Suc_eq_le length_dropWhile_le)

declare release_tail.simps [simp del]

definition parse_release :: "string \<Rightarrow> (nat list \<times> string) option" where
  \<comment> \<open>\<^verbatim>\<open>[0-9]+(?:\.[0-9]+)*\<close>\<close>
  "parse_release s =
     (let d = takeWhile is_digit s
      in if d = [] then None
         else (let (ns, rest) = release_tail (dropWhile is_digit s)
               in Some (int_of_digits d # ns, rest)))"

definition norm_pre :: "string \<Rightarrow> string" where
  \<comment> \<open>the normal form of a pre-release letter\<close>
  "norm_pre l =
     (if l = ''alpha'' then ''a'' else if l = ''beta'' then ''b''
      else if l \<in> {''c'', ''pre'', ''preview''} then ''rc'' else l)"

definition parse_pre :: "string \<Rightarrow> (string \<times> nat) option \<times> string" where
  \<comment> \<open>\<^verbatim>\<open>(?:[-_.]?(a|b|c|rc|alpha|beta|pre|preview)[-_.]?([0-9]+)?)?\<close>; a longer word is tried
      before its prefix, which gives the match the backtracking pattern finds\<close>
  "parse_pre s =
     (case match_letter [''preview'', ''pre'', ''alpha'', ''a'', ''beta'', ''b'', ''rc'', ''c'']
             (opt_sep s) of
        None \<Rightarrow> (None, s)
      | Some (l, r) \<Rightarrow> (let (n, rest) = opt_number r in (Some (norm_pre l, n), rest)))"

definition parse_post :: "string \<Rightarrow> nat option \<times> string" where
  \<comment> \<open>\<^verbatim>\<open>(?:-([0-9]+) | [-_.]?(post|rev|r)[-_.]?([0-9]+)?)?\<close>\<close>
  "parse_post s =
     (if startswith s ''-'' \<and> takeWhile is_digit (tl s) \<noteq> []
      then (Some (int_of_digits (takeWhile is_digit (tl s))), dropWhile is_digit (tl s))
      else (case match_letter [''post'', ''rev'', ''r''] (opt_sep s) of
              None \<Rightarrow> (None, s)
            | Some (l, r) \<Rightarrow> (let (n, rest) = opt_number r in (Some n, rest))))"

definition parse_dev :: "string \<Rightarrow> nat option \<times> string" where
  \<comment> \<open>\<^verbatim>\<open>(?:[-_.]?dev[-_.]?([0-9]+)?)?\<close>\<close>
  "parse_dev s =
     (case match_letter [''dev''] (opt_sep s) of
        None \<Rightarrow> (None, s)
      | Some (l, r) \<Rightarrow> (let (n, rest) = opt_number r in (Some n, rest)))"

fun split_on :: "(char \<Rightarrow> bool) \<Rightarrow> string \<Rightarrow> string \<Rightarrow> string list" where
  "split_on P w [] = [w]"
| "split_on P w (c # cs) = (if P c then w # split_on P [] cs else split_on P (w @ [c]) cs)"

definition parse_local :: "string \<Rightarrow> (string + nat) list option option" where
  \<comment> \<open>\<^verbatim>\<open>(?:\+([a-z0-9]+(?:[-_.][a-z0-9]+)*))?\<close> up to the end of the string; a part of
      digits is a number, any other part a string. The outer \<open>None\<close> is no match.\<close>
  "parse_local s =
     (case s of
        [] \<Rightarrow> Some None
      | c # r \<Rightarrow>
          (let parts = split_on is_sep [] r
           in if c = CHR ''+'' \<and> (\<forall>p \<in> set parts. p \<noteq> [] \<and> (\<forall>x \<in> set p. is_alnum x))
              then Some (Some (map (\<lambda>p. if \<forall>x \<in> set p. is_digit x
                                         then Inr (int_of_digits p) else Inl p) parts))
              else None))"

definition Version :: "string \<Rightarrow> version option" where
  \<comment> \<open>\<^verbatim>\<open>Version(s)\<close>; \<open>None\<close> is \<^verbatim>\<open>InvalidVersion\<close>\<close>
  "Version s =
     (let s0 = map lower_char (strip s);
          s1 = (if startswith s0 ''v'' then tl s0 else s0);
          (ep, s2) = parse_epoch s1
      in case parse_release s2 of
           None \<Rightarrow> None
         | Some (rel, s3) \<Rightarrow>
             (let (pr, s4) = parse_pre s3;
                  (po, s5) = parse_post s4;
                  (de, s6) = parse_dev s5
              in case parse_local s6 of
                   None \<Rightarrow> None
                 | Some lo \<Rightarrow>
                     Some \<lparr>epoch = ep, release = rel, pre = pr, post = po, dev = de,
                            local_part = lo\<rparr>))"

type_synonym cmpkey =
  "nat \<times> nat list \<times> (nat \<times> string \<times> nat) \<times> nat option \<times> (nat \<times> nat)
     \<times> (bool \<times> nat \<times> string) list option"

definition cmpkey :: "version \<Rightarrow> cmpkey" where
  \<comment> \<open>\<^verbatim>\<open>_cmpkey\<close>: trailing zeros of the release do not count; a missing part is the
      least or the greatest element of its position, written here with a leading tag\<close>
  "cmpkey v =
     (epoch v,
      rev (dropWhile (\<lambda>n. n = 0) (rev (release v))),
      (case pre v of
         None \<Rightarrow> if post v = None \<and> dev v \<noteq> None then (0, [], 0) else (2, [], 0)
       | Some (l, n) \<Rightarrow> (1, l, n)),
      post v,
      (case dev v of None \<Rightarrow> (1, 0) | Some n \<Rightarrow> (0, n)),
      map_option (map (\<lambda>p. case p of Inl s \<Rightarrow> (False, 0, s) | Inr n \<Rightarrow> (True, n, []))) (local_part v))"

definition final_release :: "nat list \<Rightarrow> version" where
  \<comment> \<open>the version that a plain dotted number such as \<^verbatim>\<open>1.45\<close> denotes\<close>
  "final_release ns =
     \<lparr>epoch = 0, release = ns, pre = None, post = None, dev = None, local_part = None\<rparr>"

definition version_le :: "version \<Rightarrow> version \<Rightarrow> bool" where
  \<comment> \<open>\<^verbatim>\<open>a <= b\<close> on versions: the comparison of the keys\<close>
  "version_le a b \<longleftrightarrow> cmpkey a \<le> cmpkey b"

section \<open>The script\<close>

subsection \<open>Arguments, environment and results\<close>

record args =
  dir :: string
  infile :: string
  repo :: "string option"
  compare :: bool
  verbose :: bool
  debug :: bool
  debug_warnings :: bool
  check_library :: bool
  timeout :: int
  compact :: bool

definition default_args :: "string \<Rightarrow> string \<Rightarrow> args" where
  \<comment> \<open>what \<^verbatim>\<open>parse_args\<close> returns for the two positional arguments alone\<close>
  "default_args d f =
     \<lparr>dir = d, infile = f, repo = None, compare = False, verbose = False, debug = False,
      debug_warnings = False, check_library = False, timeout = 2, compact = False\<rparr>"

datatype exn = InvalidVersion

datatype outcome = Finished | SysExit int | Uncaught exn

text \<open>
  A started process either ends within the timeout, with its two output streams and its
  return code, or does not; then it has a return code once it has been killed.
\<close>

datatype process = Completes string string int | Hangs int

datatype proc_op = Communicate_timeout int | Kill | Communicate

text \<open>
  What the script reads from outside: the directory listing, and the processes it starts
  (a process is given by its argument vector and its working directory).
\<close>

record env =
  listdir :: "string \<Rightarrow> string list"
  isdir :: "string \<Rightarrow> bool"
  git :: "string list \<Rightarrow> string \<Rightarrow> int \<times> string \<times> string"
  version_stdout :: "string list \<Rightarrow> string"
  popen :: "string list \<Rightarrow> string \<Rightarrow> process"

record state =
  last_ec :: "int option"
  last_out :: "string option"
  printed :: "string list"
  proc_ops :: "proc_op list"

definition print :: "string \<Rightarrow> state \<Rightarrow> state" where
  "print s st = st\<lparr>printed := printed st @ [s]\<rparr>"

definition str_opt_int :: "int option \<Rightarrow> string" where
  \<comment> \<open>\<^verbatim>\<open>str\<close> of a value that is an integer or \<^verbatim>\<open>None\<close>\<close>
  "str_opt_int x = (case x of None \<Rightarrow> ''None'' | Some i \<Rightarrow> str_int i)"

definition str_opt :: "string option \<Rightarrow> string" where
  "str_opt x = (case x of None \<Rightarrow> ''None'' | Some s \<Rightarrow> s)"

definition bind :: "exn + 'a \<Rightarrow> ('a \<Rightarrow> exn + 'b) \<Rightarrow> exn + 'b" where
  \<comment> \<open>sequencing of two computations that may raise\<close>
  "bind m f = (case m of Inl e \<Rightarrow> Inl e | Inr x \<Rightarrow> f x)"

definition Version_ge :: "string \<Rightarrow> string \<Rightarrow> exn + bool" where
  \<comment> \<open>\<^verbatim>\<open>Version(a) >= Version(b)\<close>\<close>
  "Version_ge a b =
     (case Version a of
        None \<Rightarrow> Inl InvalidVersion
      | Some x \<Rightarrow> (case Version b of None \<Rightarrow> Inl InvalidVersion
                   | Some y \<Rightarrow> Inr (version_le y x)))"

definition Version_le :: "string \<Rightarrow> string \<Rightarrow> exn + bool" where
  \<comment> \<open>\<^verbatim>\<open>Version(a) <= Version(b)\<close>\<close>
  "Version_le a b =
     (case Version a of
        None \<Rightarrow> Inl InvalidVersion
      | Some x \<Rightarrow> (case Version b of None \<Rightarrow> Inl InvalidVersion
                   | Some y \<Rightarrow> Inr (version_le x y)))"

definition py_and :: "bool \<Rightarrow> (exn + bool) \<Rightarrow> exn + bool" where
  \<comment> \<open>\<^verbatim>\<open>a and b\<close>: \<^verbatim>\<open>b\<close> is not evaluated when \<^verbatim>\<open>a\<close> is false\<close>
  "py_and a b = (if a then b else Inr False)"

definition py_or :: "(exn + bool) \<Rightarrow> (exn + bool) \<Rightarrow> exn + bool" where
  \<comment> \<open>\<^verbatim>\<open>a or b\<close>: \<^verbatim>\<open>b\<close> is not evaluated when \<^verbatim>\<open>a\<close> is true\<close>
  "py_or a b = bind a (\<lambda>x. if x then Inr True else b)"

definition add_if :: "(exn + bool) \<Rightarrow> string \<Rightarrow> string \<Rightarrow> exn + string" where
  \<comment> \<open>\<^verbatim>\<open>if c: cmd += s\<close>\<close>
  "add_if c s cmd = bind c (\<lambda>b. Inr (if b then cmd @ s else cmd))"

subsection \<open>The command builder (lines 100 to 118)\<close>

definition build_cmd :: "args \<Rightarrow> string \<Rightarrow> string \<Rightarrow> exn + string" where
  "build_cmd a exe version =
     bind (Inr (exe @ '' '')) (\<lambda>cmd.
     bind (add_if (Inr (compare a)) '' -q '' cmd) (\<lambda>cmd.
     bind (add_if (py_and (debug a) (Version_ge version ''1.45'')) ''--debug '' cmd) (\<lambda>cmd.
     bind (add_if (py_and (debug_warnings a) (Version_ge version ''1.45''))
             ''--debug-warnings '' cmd) (\<lambda>cmd.
     bind (add_if (py_and (check_library a) (Version_ge version ''1.61''))
             ''--check-library '' cmd) (\<lambda>cmd.
     bind (add_if (Version_ge version ''1.39'') ''--enable=all '' cmd) (\<lambda>cmd.
     bind (add_if (Version_ge version ''1.40'') ''--inline-suppr '' cmd) (\<lambda>cmd.
     bind (add_if (Version_ge version ''1.48'')
             (''--suppress=missingInclude --suppress=missingIncludeSystem '' @
              ''--suppress=unmatchedSuppression --suppress=unusedFunction '') cmd) (\<lambda>cmd.
     bind (add_if (Version_ge version ''1.49'') ''--inconclusive '' cmd) (\<lambda>cmd.
     Inr (cmd @ infile a))))))))))"

subsection \<open>Execution and timeout (lines 121 to 130)\<close>

definition execute :: "process \<Rightarrow> int \<Rightarrow> string \<times> int \<times> proc_op list" where
  \<comment> \<open>the output, the return code and the operations made on the process\<close>
  "execute p t =
     (case p of
        Completes so se rc \<Rightarrow> (so @ [CHR 0x0A] @ se, rc, [Communicate_timeout t])
      | Hangs rc \<Rightarrow> (''timeout'', rc, [Communicate_timeout t, Kill, Communicate]))"

subsection \<open>The noise filter (lines 146 to 154)\<close>

fun filter_lines :: "string list \<Rightarrow> string \<Rightarrow> string" where
  \<comment> \<open>the loop over the lines, with the output built so far\<close>
  "filter_lines [] out = out"
| "filter_lines (line # lines) out =
     (if startswith line ''[*]: (information) Unmatched suppression:''
      then filter_lines lines out
      else filter_lines lines (out @ line @ [CHR 0x0A]))"

definition noise_filter :: "string \<Rightarrow> string" where
  "noise_filter out = filter_lines (splitlines out) []"

definition filter_guard :: "bool \<Rightarrow> string \<Rightarrow> exn + bool" where
  \<comment> \<open>the condition of line 146\<close>
  "filter_guard use_hashes version =
     py_and (\<not> use_hashes)
       (py_or (Version_ge version ''1.48'') (Version_le version ''1.49''))"

definition filter_out :: "bool \<Rightarrow> string \<Rightarrow> string \<Rightarrow> exn + string" where
  \<comment> \<open>lines 146 to 154: the output that is compared\<close>
  "filter_out use_hashes version out =
     bind (filter_guard use_hashes version) (\<lambda>g.
     Inr (strip (if g then noise_filter out else out)))"

subsection \<open>The loop over the versions (lines 87 to 191)\<close>

definition get_version :: "env \<Rightarrow> bool \<Rightarrow> string \<Rightarrow> string \<Rightarrow> string" where
  \<comment> \<open>lines 91 to 98: the version string of an entry\<close>
  "get_version e use_hashes exe entry =
     (if \<not> use_hashes then entry
      else (let version_cmd = exe @ '' '' @ ''--version'';
                version = strip (version_stdout e (split version_cmd))
            in replace (replace version ''Cppcheck '' []) '' dev'' []))"

definition label :: "bool \<Rightarrow> string \<Rightarrow> string \<Rightarrow> string" where
  \<comment> \<open>what is printed to name a version: the version, or the entry with its version\<close>
  "label use_hashes entry version =
     (if \<not> use_hashes then version else entry @ '' ('' @ version @ '')'')"

definition report :: "args \<Rightarrow> string \<Rightarrow> string \<Rightarrow> int \<Rightarrow> string \<Rightarrow> state \<Rightarrow> state" where
  \<comment> \<open>lines 156 to 191: the comparison with the result kept from the run before\<close>
  "report a lbl version ec out st =
     (if last_ec st = None
      then (print lbl st)\<lparr>last_ec := Some ec, last_out := Some out\<rparr>
      else
        (let do_print = False;
             (st, do_print) =
               (if last_ec st \<noteq> Some ec
                then (if verbose a then print (version @ '': exitcode changed'') st else st, True)
                else (st, do_print));
             (st, do_print) =
               (if last_out st \<noteq> Some out
                then (if verbose a then print (version @ '': output changed'') st else st, True)
                else (st, do_print));
             st = (if do_print
                   then print (str_opt (last_out st)) (print (str_opt_int (last_ec st)) st)
                   else st);
             st = (if \<not> compact a \<or> do_print then print lbl st else st)
         in st\<lparr>last_ec := Some ec, last_out := Some out\<rparr>))"

definition loop_body :: "env \<Rightarrow> args \<Rightarrow> bool \<Rightarrow> string \<Rightarrow> state \<Rightarrow> exn + state" where
  "loop_body e a use_hashes entry st =
     (let exe_path = path_join (dir a) entry;
          exe = path_join exe_path ''cppcheck'';
          version = get_version e use_hashes exe entry
      in bind (build_cmd a exe version) (\<lambda>cmd.
           (let st = (if verbose a then print (''running '' @ apos @ cmd @ apos) st else st);
                (out, ec, ops) = execute (popen e (split cmd) exe_path) (timeout a);
                st = st\<lparr>proc_ops := proc_ops st @ ops\<rparr>
            in if \<not> compare a
               then Inr (print out (print (str_int ec)
                          (print (label use_hashes entry version) st)))
               else bind (filter_out use_hashes version out) (\<lambda>out.
                      Inr (report a (label use_hashes entry version) version ec out st)))))"

fun main_loop :: "env \<Rightarrow> args \<Rightarrow> bool \<Rightarrow> string list \<Rightarrow> state \<Rightarrow> state \<times> exn option" where
  \<comment> \<open>the \<^verbatim>\<open>for\<close> loop; an exception of the body ends it\<close>
  "main_loop e a use_hashes [] st = (st, None)"
| "main_loop e a use_hashes (entry # versions) st =
     (case loop_body e a use_hashes entry st of
        Inl x \<Rightarrow> (st, Some x)
      | Inr st' \<Rightarrow> main_loop e a use_hashes versions st')"

subsection \<open>The version enumerator (lines 22 to 30 and 43 to 79)\<close>

definition sort_commit_hashes ::
  "env \<Rightarrow> string \<Rightarrow> string list \<Rightarrow> (string list \<times> int) + string list" where
  \<comment> \<open>\<open>Inl\<close>: the lines printed and the exit code of \<^verbatim>\<open>sys.exit\<close>\<close>
  "sort_commit_hashes e git_repo commits =
     (let git_cmd = ''git rev-list --abbrev-commit --topo-order --no-walk=sorted --reverse '' @
                    join '' '' commits;
          (returncode, stdout, stderr) = git e (split git_cmd) git_repo
      in if returncode \<noteq> 0
         then Inl ([''error: sorting commit hashes failed'', stderr], 1)
         else Inr (splitlines stdout))"

definition sort_versions :: "string list \<Rightarrow> string list option" where
  \<comment> \<open>\<^verbatim>\<open>versions.sort(key=Version)\<close>: the keys are computed first, and the list is left
      as it is when one of them raises (\<open>None\<close>); the sort is stable\<close>
  "sort_versions versions =
     (case those (map Version versions) of
        None \<Rightarrow> None
      | Some keys \<Rightarrow> Some (map snd (sort_key (\<lambda>kv. cmpkey (fst kv)) (zip keys versions))))"

definition list_versions :: "env \<Rightarrow> string \<Rightarrow> string list" where
  \<comment> \<open>lines 44 to 50: the names of the subdirectories, in the order of the listing\<close>
  "list_versions e directory =
     filter (\<lambda>filename. isdir e (path_join directory filename)) (listdir e directory)"

definition enumerate_versions ::
  "env \<Rightarrow> args \<Rightarrow> (string list \<times> int) + (bool \<times> string list \<times> string list)" where
  \<comment> \<open>\<open>Inl\<close>: the lines printed and the exit code; \<open>Inr\<close>: \<^verbatim>\<open>use_hashes\<close>, the versions
      in the order of processing, and the lines printed\<close>
  "enumerate_versions e a =
     (let versions = list_versions e (dir a)
      in case versions of
           [] \<Rightarrow> Inl ([''error: no versions found in '' @ apos @ dir a @ apos], 1)
         | v0 # _ \<Rightarrow>
            (let pr = (if verbose a
                       then [''found '' @ str_nat (length versions) @ '' versions in '' @
                             apos @ dir a @ apos]
                       else [])
             in case (if Version v0 = None then None else sort_versions versions) of
                  Some vs \<Rightarrow> Inr (False, vs, pr)
                | None \<Rightarrow>
                   (let pr = pr @ (if verbose a
                                   then [apos @ v0 @ apos @ '' not a version - assuming commit hashes'']
                                   else [])
                    in case repo a of
                         None \<Rightarrow>
                           Inl (pr @ [''error: git repository argument required for commit hash sorting''], 1)
                       | Some git_repo \<Rightarrow>
                          if git_repo = []
                          then Inl (pr @ [''error: git repository argument required for commit hash sorting''], 1)
                          else
                           (let pr = pr @ (if verbose a
                                           then [''using git repository '' @ apos @ git_repo @ apos @
                                                 '' to sort commit hashes'']
                                           else []);
                                versions = (if count_list versions ''cppcheck'' \<noteq> 0
                                            then remove1 ''cppcheck'' versions else versions);
                                len_in = length versions
                            in case sort_commit_hashes e git_repo versions of
                                 Inl (msgs, code) \<Rightarrow> Inl (pr @ msgs, code)
                               | Inr versions \<Rightarrow>
                                  if length versions \<noteq> len_in
                                  then Inl (pr @ [''error: unexpected amount of versions after commit hash sorting''], 1)
                                  else Inr (True, versions, pr)))))"

subsection \<open>The whole script\<close>

definition main :: "env \<Rightarrow> args \<Rightarrow> string list \<times> proc_op list \<times> outcome" where
  \<comment> \<open>the lines printed, the operations on the analysis processes, and how the script ends\<close>
  "main e a =
     (if compact a \<and> \<not> compare a
      then ([''error: --compact requires --compare''], [], SysExit 1)
      else case enumerate_versions e a of
             Inl (pr, code) \<Rightarrow> (pr, [], SysExit code)
           | Inr (use_hashes, versions, pr) \<Rightarrow>
              (let pr = pr @ (if verbose a then [''analyzing '' @ apos @ infile a @ apos] else []);
                   st = \<lparr>last_ec = None, last_out = None, printed = pr, proc_ops = []\<rparr>
               in case main_loop e a use_hashes versions st of
                    (st, Some x) \<Rightarrow> (printed st, proc_ops st, Uncaught x)
                  | (st, None) \<Rightarrow>
                     (let st = (if compare a
                                then print (str_opt (last_out st)) (print (str_opt_int (last_ec st)) st)
                                else st);
                          st = (if verbose a then print ''done'' st else st)
                      in (printed st, proc_ops st, Finished))))"

section \<open>Notions used in the statements and proofs\<close>

definition ends_ws :: "string \<Rightarrow> bool" where
  \<comment> \<open>a string that ends with a whitespace character\<close>
  "ends_ws xs \<longleftrightarrow> xs \<noteq> [] \<and> isspace (last xs)"

definition gated_flags :: "args \<Rightarrow> version \<Rightarrow> string list" where
  \<comment> \<open>the threshold table of the command builder, as the list of options it stands for\<close>
  "gated_flags a v =
     (if compare a then [''-q''] else []) @
     (if debug a \<and> version_le (final_release [1, 45]) v then [''--debug''] else []) @
     (if debug_warnings a \<and> version_le (final_release [1, 45]) v
      then [''--debug-warnings''] else []) @
     (if check_library a \<and> version_le (final_release [1, 61]) v
      then [''--check-library''] else []) @
     (if version_le (final_release [1, 39]) v then [''--enable=all''] else []) @
     (if version_le (final_release [1, 40]) v then [''--inline-suppr''] else []) @
     (if version_le (final_release [1, 48]) v
      then [''--suppress=missingInclude'', ''--suppress=missingIncludeSystem'',
            ''--suppress=unmatchedSuppression'', ''--suppress=unusedFunction''] else []) @
     (if version_le (final_release [1, 49]) v then [''--inconclusive''] else [])"

section \<open>Strings\<close>

lemma startswith_append [simp]: "startswith (p @ s) p"
  by (simp add: startswith_def)

lemma split_acc_snoc_space: "isspace c \<Longrightarrow> split_acc w (xs @ [c]) = split_acc w xs"
  by (induction xs arbitrary: w) simp_all

lemma split_acc_append_space:
  "isspace c \<Longrightarrow> split_acc w (xs @ c # ys) = split_acc w xs @ split_acc [] ys"
  by (induction xs arbitrary: w) simp_all

lemma split_append: "ends_ws xs \<Longrightarrow> split (xs @ ys) = split xs @ split ys"
proof -
  assume a: "ends_ws xs"
  then obtain b c where xs: "xs = b @ [c]" and c: "isspace c"
    unfolding ends_ws_def by (metis append_butlast_last_id)
  show ?thesis
    using split_acc_append_space [OF c, of "[]" b ys] split_acc_snoc_space [OF c, of "[]" b]
    by (simp add: split_def xs)
qed

lemma ends_ws_append: "ends_ws s \<Longrightarrow> ends_ws (c @ s)"
  by (simp add: ends_ws_def)

lemma split_step:
  "ends_ws c \<Longrightarrow> split (if b then c @ s else c) = split c @ (if b then split s else [])"
  by (simp add: split_append)

lemma ends_ws_step: "ends_ws c \<Longrightarrow> ends_ws s \<Longrightarrow> ends_ws (if b then c @ s else c)"
  by (simp add: ends_ws_append)

lemma split_exe_space: "split (exe @ '' '') = split exe"
  using split_acc_snoc_space [of "CHR '' ''" "[]" exe] by (simp add: split_def isspace_def)

lemma str_int_0: "str_int 0 = ''0''"
  by code_simp

section \<open>Versions\<close>

lemma Version_139: "Version ''1.39'' = Some (final_release [1, 39])" by code_simp
lemma Version_140: "Version ''1.40'' = Some (final_release [1, 40])" by code_simp
lemma Version_145: "Version ''1.45'' = Some (final_release [1, 45])" by code_simp
lemma Version_148: "Version ''1.48'' = Some (final_release [1, 48])" by code_simp
lemma Version_149: "Version ''1.49'' = Some (final_release [1, 49])" by code_simp
lemma Version_161: "Version ''1.61'' = Some (final_release [1, 61])" by code_simp

text \<open>The comparison of versions is a total preorder: it is the linear order of the keys.\<close>

lemma version_le_total: "version_le a b \<or> version_le b a"
  unfolding version_le_def by (rule linear)

lemma version_le_trans: "version_le a b \<Longrightarrow> version_le b c \<Longrightarrow> version_le a c"
  unfolding version_le_def by (rule order_trans)

lemma version_le_refl: "version_le a a"
  unfolding version_le_def by simp

lemma cmpkey_final:
  "cmpkey (final_release ns) =
     (0, rev (dropWhile (\<lambda>n. n = 0) (rev ns)), (2, [], 0), None, (1, 0), None)"
  by (simp add: cmpkey_def final_release_def)

lemma le_148_149: "version_le (final_release [1, 48]) (final_release [1, 49])"
  by (simp add: version_le_def cmpkey_final)

lemma threshold_order:
  "version_le (final_release [1, 39]) (final_release [1, 40])"
  "version_le (final_release [1, 39]) (final_release [1, 45])"
  "version_le (final_release [1, 39]) (final_release [1, 48])"
  "version_le (final_release [1, 39]) (final_release [1, 49])"
  "version_le (final_release [1, 39]) (final_release [1, 61])"
  by (simp_all add: version_le_def cmpkey_final)

lemma below_all:
  assumes "\<not> version_le (final_release [1, 39]) v"
  shows "\<not> version_le (final_release [1, 40]) v" "\<not> version_le (final_release [1, 45]) v"
    "\<not> version_le (final_release [1, 48]) v" "\<not> version_le (final_release [1, 49]) v"
    "\<not> version_le (final_release [1, 61]) v"
  using assms threshold_order version_le_trans by blast+

lemma Version_ge_Some:
  "Version s = Some v \<Longrightarrow> Version t = Some w \<Longrightarrow> Version_ge s t = Inr (version_le w v)"
  by (simp add: Version_ge_def)

lemma Version_le_Some:
  "Version s = Some v \<Longrightarrow> Version t = Some w \<Longrightarrow> Version_le s t = Inr (version_le v w)"
  by (simp add: Version_le_def)

lemma bind_Inr [simp]: "bind (Inr x) f = f x"
  by (simp add: bind_def)

lemma bind_Inl [simp]: "bind (Inl x) f = Inl x"
  by (simp add: bind_def)

lemma add_if_Inr [simp]: "add_if (Inr b) s cmd = Inr (if b then cmd @ s else cmd)"
  by (simp add: add_if_def)

lemma py_and_Inr [simp]: "py_and a (Inr b) = Inr (a \<and> b)"
  by (simp add: py_and_def)

lemma py_or_Inr [simp]: "py_or (Inr x) b = (if x then Inr True else b)"
  by (simp add: py_or_def)

section \<open>The command builder\<close>

lemma build_cmd_Some:
  assumes "Version version = Some v"
  shows "build_cmd a exe version = Inr
    (let cmd = exe @ '' '';
         cmd = (if compare a then cmd @ '' -q '' else cmd);
         cmd = (if debug a \<and> version_le (final_release [1, 45]) v then cmd @ ''--debug '' else cmd);
         cmd = (if debug_warnings a \<and> version_le (final_release [1, 45]) v
                then cmd @ ''--debug-warnings '' else cmd);
         cmd = (if check_library a \<and> version_le (final_release [1, 61]) v
                then cmd @ ''--check-library '' else cmd);
         cmd = (if version_le (final_release [1, 39]) v then cmd @ ''--enable=all '' else cmd);
         cmd = (if version_le (final_release [1, 40]) v then cmd @ ''--inline-suppr '' else cmd);
         cmd = (if version_le (final_release [1, 48]) v
                then cmd @ (''--suppress=missingInclude --suppress=missingIncludeSystem '' @
                            ''--suppress=unmatchedSuppression --suppress=unusedFunction '')
                else cmd);
         cmd = (if version_le (final_release [1, 49]) v then cmd @ ''--inconclusive '' else cmd)
     in cmd @ infile a)"
  unfolding build_cmd_def Let_def
  by (simp only: Version_ge_Some [OF assms Version_139] Version_ge_Some [OF assms Version_140]
       Version_ge_Some [OF assms Version_145] Version_ge_Some [OF assms Version_148]
       Version_ge_Some [OF assms Version_149] Version_ge_Some [OF assms Version_161]
       bind_Inr add_if_Inr py_and_Inr)

lemma build_cmd_None: "Version version = None \<Longrightarrow> build_cmd a exe version = Inl InvalidVersion"
  unfolding build_cmd_def
  by (simp add: Version_ge_def py_and_def add_if_def bind_def)

lemma split_lits:
  "split '' -q '' = [''-q'']" "split ''--debug '' = [''--debug'']"
  "split ''--debug-warnings '' = [''--debug-warnings'']"
  "split ''--check-library '' = [''--check-library'']"
  "split ''--enable=all '' = [''--enable=all'']"
  "split ''--inline-suppr '' = [''--inline-suppr'']"
  "split ''--inconclusive '' = [''--inconclusive'']"
  "split (''--suppress=missingInclude --suppress=missingIncludeSystem '' @
          ''--suppress=unmatchedSuppression --suppress=unusedFunction '') =
     [''--suppress=missingInclude'', ''--suppress=missingIncludeSystem'',
      ''--suppress=unmatchedSuppression'', ''--suppress=unusedFunction'']"
  by (simp_all add: split_def isspace_def)

lemma ends_lits:
  "ends_ws '' -q ''" "ends_ws ''--debug ''" "ends_ws ''--debug-warnings ''"
  "ends_ws ''--check-library ''" "ends_ws ''--enable=all ''" "ends_ws ''--inline-suppr ''"
  "ends_ws ''--inconclusive ''"
  "ends_ws (''--suppress=missingInclude --suppress=missingIncludeSystem '' @
          ''--suppress=unmatchedSuppression --suppress=unusedFunction '')"
  "ends_ws (exe @ '' '')"
  by (simp_all add: ends_ws_def isspace_def)

lemma build_cmd_split:
  assumes "Version version = Some v"
  shows "\<exists>cmd. build_cmd a exe version = Inr cmd \<and>
           split cmd = split exe @ gated_flags a v @ split (infile a)"
proof -
  define c0 where "c0 = exe @ '' ''"
  define c1 where "c1 = (if compare a then c0 @ '' -q '' else c0)"
  define c2 where "c2 = (if debug a \<and> version_le (final_release [1, 45]) v then c1 @ ''--debug '' else c1)"
  define c3 where "c3 = (if debug_warnings a \<and> version_le (final_release [1, 45]) v
                then c2 @ ''--debug-warnings '' else c2)"
  define c4 where "c4 = (if check_library a \<and> version_le (final_release [1, 61]) v
                then c3 @ ''--check-library '' else c3)"
  define c5 where "c5 = (if version_le (final_release [1, 39]) v then c4 @ ''--enable=all '' else c4)"
  define c6 where "c6 = (if version_le (final_release [1, 40]) v then c5 @ ''--inline-suppr '' else c5)"
  define c7 where "c7 = (if version_le (final_release [1, 48]) v
                then c6 @ (''--suppress=missingInclude --suppress=missingIncludeSystem '' @
                            ''--suppress=unmatchedSuppression --suppress=unusedFunction '')
                else c6)"
  define c8 where "c8 = (if version_le (final_release [1, 49]) v then c7 @ ''--inconclusive '' else c7)"
  have b: "build_cmd a exe version = Inr (c8 @ infile a)"
    unfolding build_cmd_Some [OF assms] Let_def c8_def c7_def c6_def c5_def c4_def c3_def c2_def
      c1_def c0_def ..
  have e0: "ends_ws c0" unfolding c0_def by (rule ends_lits)
  have e1: "ends_ws c1" unfolding c1_def by (rule ends_ws_step [OF e0 ends_lits(1)])
  have e2: "ends_ws c2" unfolding c2_def by (rule ends_ws_step [OF e1 ends_lits(2)])
  have e3: "ends_ws c3" unfolding c3_def by (rule ends_ws_step [OF e2 ends_lits(3)])
  have e4: "ends_ws c4" unfolding c4_def by (rule ends_ws_step [OF e3 ends_lits(4)])
  have e5: "ends_ws c5" unfolding c5_def by (rule ends_ws_step [OF e4 ends_lits(5)])
  have e6: "ends_ws c6" unfolding c6_def by (rule ends_ws_step [OF e5 ends_lits(6)])
  have e7: "ends_ws c7" unfolding c7_def by (rule ends_ws_step [OF e6 ends_lits(8)])
  have e8: "ends_ws c8" unfolding c8_def by (rule ends_ws_step [OF e7 ends_lits(7)])
  have s0: "split c0 = split exe" unfolding c0_def by (rule split_exe_space)
  have s1: "split c1 = split c0 @ (if compare a then [''-q''] else [])"
    unfolding c1_def split_step [OF e0] split_lits ..
  have s2: "split c2 = split c1 @ (if debug a \<and> version_le (final_release [1, 45]) v then [''--debug''] else [])"
    unfolding c2_def split_step [OF e1] split_lits ..
  have s3: "split c3 = split c2 @ (if debug_warnings a \<and> version_le (final_release [1, 45]) v then [''--debug-warnings''] else [])"
    unfolding c3_def split_step [OF e2] split_lits ..
  have s4: "split c4 = split c3 @ (if check_library a \<and> version_le (final_release [1, 61]) v then [''--check-library''] else [])"
    unfolding c4_def split_step [OF e3] split_lits ..
  have s5: "split c5 = split c4 @ (if version_le (final_release [1, 39]) v then [''--enable=all''] else [])"
    unfolding c5_def split_step [OF e4] split_lits ..
  have s6: "split c6 = split c5 @ (if version_le (final_release [1, 40]) v then [''--inline-suppr''] else [])"
    unfolding c6_def split_step [OF e5] split_lits ..
  have s7: "split c7 = split c6 @ (if version_le (final_release [1, 48]) v
      then [''--suppress=missingInclude'', ''--suppress=missingIncludeSystem'',
            ''--suppress=unmatchedSuppression'', ''--suppress=unusedFunction''] else [])"
    unfolding c7_def split_step [OF e6] split_lits ..
  have s8: "split c8 = split c7 @ (if version_le (final_release [1, 49]) v then [''--inconclusive''] else [])"
    unfolding c8_def split_step [OF e7] split_lits ..
  have "split (c8 @ infile a) = split exe @ gated_flags a v @ split (infile a)"
    unfolding split_append [OF e8] s8 s7 s6 s5 s4 s3 s2 s1 s0 gated_flags_def
    by (simp only: append_assoc)
  with b show ?thesis by blast
qed


lemma set_if_subset: "set xs \<subseteq> S \<Longrightarrow> set (if b then xs else []) \<subseteq> S"
  by auto

text \<open>
  Claim C1. For every version string that parses, the command is built, and its argument
  vector (the command split at whitespace, as it is passed to the process) consists of the
  words of the executable path, then the options, then the words of the input file. The
  options contain \<^verbatim>\<open>-q\<close> exactly in compare mode, whatever the version;
  \<^verbatim>\<open>--debug\<close> and \<^verbatim>\<open>--debug-warnings\<close> exactly when requested and the version is at
  least 1.45; \<^verbatim>\<open>--check-library\<close> exactly when requested and the version is at least 1.61;
  \<^verbatim>\<open>--enable=all\<close> exactly from 1.39; \<^verbatim>\<open>--inline-suppr\<close> exactly from 1.40; each of the
  four \<^verbatim>\<open>--suppress=\<close> options exactly from 1.48; \<^verbatim>\<open>--inconclusive\<close> exactly from 1.49;
  and nothing else. Below 1.39, the least threshold, no version-gated option is present.
\<close>

theorem build_cmd_gated_flags:
  assumes "Version version = Some v"
  shows "\<exists>cmd flags.
     build_cmd a exe version = Inr cmd
   \<and> split cmd = split exe @ flags @ split (infile a)
   \<and> (''-q'' \<in> set flags \<longleftrightarrow> compare a)
   \<and> (''--debug'' \<in> set flags \<longleftrightarrow> debug a \<and> version_le (final_release [1, 45]) v)
   \<and> (''--debug-warnings'' \<in> set flags \<longleftrightarrow>
        debug_warnings a \<and> version_le (final_release [1, 45]) v)
   \<and> (''--check-library'' \<in> set flags \<longleftrightarrow>
        check_library a \<and> version_le (final_release [1, 61]) v)
   \<and> (''--enable=all'' \<in> set flags \<longleftrightarrow> version_le (final_release [1, 39]) v)
   \<and> (''--inline-suppr'' \<in> set flags \<longleftrightarrow> version_le (final_release [1, 40]) v)
   \<and> (''--suppress=missingInclude'' \<in> set flags \<longleftrightarrow> version_le (final_release [1, 48]) v)
   \<and> (''--suppress=missingIncludeSystem'' \<in> set flags \<longleftrightarrow>
        version_le (final_release [1, 48]) v)
   \<and> (''--suppress=unmatchedSuppression'' \<in> set flags \<longleftrightarrow>
        version_le (final_release [1, 48]) v)
   \<and> (''--suppress=unusedFunction'' \<in> set flags \<longleftrightarrow> version_le (final_release [1, 48]) v)
   \<and> (''--inconclusive'' \<in> set flags \<longleftrightarrow> version_le (final_release [1, 49]) v)
   \<and> set flags \<subseteq> {''-q'', ''--debug'', ''--debug-warnings'', ''--check-library'',
         ''--enable=all'', ''--inline-suppr'', ''--suppress=missingInclude'',
         ''--suppress=missingIncludeSystem'', ''--suppress=unmatchedSuppression'',
         ''--suppress=unusedFunction'', ''--inconclusive''}
   \<and> (\<not> version_le (final_release [1, 39]) v \<longrightarrow>
        flags = (if compare a then [''-q''] else []))"
proof -
  obtain cmd where c: "build_cmd a exe version = Inr cmd"
    and s: "split cmd = split exe @ gated_flags a v @ split (infile a)"
    using build_cmd_split [OF assms] by blast
  have 1: "''-q'' \<in> set (gated_flags a v) \<longleftrightarrow> compare a"
    by (simp add: gated_flags_def)
  have 2: "''--debug'' \<in> set (gated_flags a v) \<longleftrightarrow> debug a \<and> version_le (final_release [1, 45]) v"
    by (simp add: gated_flags_def)
  have 3: "''--debug-warnings'' \<in> set (gated_flags a v) \<longleftrightarrow>
        debug_warnings a \<and> version_le (final_release [1, 45]) v"
    by (simp add: gated_flags_def)
  have 4: "''--check-library'' \<in> set (gated_flags a v) \<longleftrightarrow>
        check_library a \<and> version_le (final_release [1, 61]) v"
    by (simp add: gated_flags_def)
  have 5: "''--enable=all'' \<in> set (gated_flags a v) \<longleftrightarrow> version_le (final_release [1, 39]) v"
    by (simp add: gated_flags_def)
  have 6: "''--inline-suppr'' \<in> set (gated_flags a v) \<longleftrightarrow> version_le (final_release [1, 40]) v"
    by (simp add: gated_flags_def)
  have 7: "''--suppress=missingInclude'' \<in> set (gated_flags a v) \<longleftrightarrow> version_le (final_release [1, 48]) v"
    "''--suppress=missingIncludeSystem'' \<in> set (gated_flags a v) \<longleftrightarrow> version_le (final_release [1, 48]) v"
    "''--suppress=unmatchedSuppression'' \<in> set (gated_flags a v) \<longleftrightarrow> version_le (final_release [1, 48]) v"
    "''--suppress=unusedFunction'' \<in> set (gated_flags a v) \<longleftrightarrow> version_le (final_release [1, 48]) v"
    by (simp_all add: gated_flags_def)
  have 8: "''--inconclusive'' \<in> set (gated_flags a v) \<longleftrightarrow> version_le (final_release [1, 49]) v"
    by (simp add: gated_flags_def)
  have 9: "set (gated_flags a v) \<subseteq> {''-q'', ''--debug'', ''--debug-warnings'', ''--check-library'',
         ''--enable=all'', ''--inline-suppr'', ''--suppress=missingInclude'',
         ''--suppress=missingIncludeSystem'', ''--suppress=unmatchedSuppression'',
         ''--suppress=unusedFunction'', ''--inconclusive''}"
    unfolding gated_flags_def set_append by (intro Un_least set_if_subset) simp_all
  have 10: "\<not> version_le (final_release [1, 39]) v \<longrightarrow>
        gated_flags a v = (if compare a then [''-q''] else [])"
    using below_all [of v] by (simp add: gated_flags_def)
  from c s 1 2 3 4 5 6 7 8 9 10 show ?thesis
    by (intro exI [of _ cmd] exI [of _ "gated_flags a v"] conjI) assumption+
qed


text \<open>
  Version 1.61 with \<^verbatim>\<open>--check-library\<close> requested: the option is passed on; below every
  threshold (1.38) only \<^verbatim>\<open>-q\<close> remains.
\<close>

theorem build_cmd_gated_flags_witness:
  "Version ''1.61'' = Some (final_release [1, 61])
   \<and> (\<exists>cmd flags.
        build_cmd ((default_args ''d'' ''a.c'')\<lparr>check_library := True\<rparr>) ''d/1.61/cppcheck'' ''1.61''
          = Inr cmd
      \<and> split cmd = split ''d/1.61/cppcheck'' @ flags
                    @ split (infile ((default_args ''d'' ''a.c'')\<lparr>check_library := True\<rparr>))
      \<and> ''--check-library'' \<in> set flags \<and> ''--debug'' \<notin> set flags \<and> ''-q'' \<notin> set flags)"
proof (rule conjI [OF Version_161])
  define A where "A = (default_args ''d'' ''a.c'')\<lparr>check_library := True\<rparr>"
  have A: "check_library A" "\<not> debug A" "\<not> compare A"
    by (simp_all add: A_def default_args_def)
  have l: "version_le (final_release [1, 61]) (final_release [1, 61])"
    by (rule version_le_refl)
  from build_cmd_gated_flags [OF Version_161, of A "''d/1.61/cppcheck''"]
  have "\<exists>cmd flags.
        build_cmd A ''d/1.61/cppcheck'' ''1.61'' = Inr cmd
      \<and> split cmd = split ''d/1.61/cppcheck'' @ flags @ split (infile A)
      \<and> ''--check-library'' \<in> set flags \<and> ''--debug'' \<notin> set flags \<and> ''-q'' \<notin> set flags"
    by (elim exE conjE, intro exI conjI) (assumption, assumption, simp_all only: A l simp_thms)
  then show "\<exists>cmd flags.
        build_cmd ((default_args ''d'' ''a.c'')\<lparr>check_library := True\<rparr>) ''d/1.61/cppcheck'' ''1.61''
          = Inr cmd
      \<and> split cmd = split ''d/1.61/cppcheck'' @ flags
                    @ split (infile ((default_args ''d'' ''a.c'')\<lparr>check_library := True\<rparr>))
      \<and> ''--check-library'' \<in> set flags \<and> ''--debug'' \<notin> set flags \<and> ''-q'' \<notin> set flags"
    unfolding A_def .
qed


lemma build_cmd_1_38:
  "build_cmd ((default_args ''d'' ''a.c'')\<lparr>check_library := True, debug := True, compare := True\<rparr>)
      ''d/1.38/cppcheck'' ''1.38'' = Inr (''d/1.38/cppcheck  -q a.c'')"
  by code_simp


section \<open>The noise filter\<close>

lemma filter_lines_acc:
  "filter_lines ls acc = acc @ concat (map (\<lambda>l. l @ [CHR 0x0A])
     (filter (\<lambda>l. \<not> startswith l ''[*]: (information) Unmatched suppression:'') ls))"
  by (induction ls arbitrary: acc) simp_all


text \<open>
  Claim C10. The noise filter returns the lines of the output, in their order, that do not
  start with \<^verbatim>\<open>[*]: (information) Unmatched suppression:\<close>, each followed by one newline;
  a line with this prefix is dropped whatever follows the prefix.
\<close>

theorem noise_filter_lines:
  "noise_filter out = concat (map (\<lambda>l. l @ [CHR 0x0A])
       (filter (\<lambda>l. \<not> startswith l ''[*]: (information) Unmatched suppression:'') (splitlines out)))
   \<and> (\<forall>name pre post acc.
        filter_lines (pre @ (''[*]: (information) Unmatched suppression:'' @ name) # post) acc =
        filter_lines (pre @ post) acc)"
proof -
  have "\<And>name. startswith (''[*]: (information) Unmatched suppression:'' @ name)
          ''[*]: (information) Unmatched suppression:''"
    by (rule startswith_append)
  then show ?thesis
    by (simp add: noise_filter_def filter_lines_acc del: filter_lines.simps append.simps)
qed


theorem noise_filter_lines_witness:
  "noise_filter (''a'' @ [CHR 0x0A] @ ''[*]: (information) Unmatched suppression: anyOtherId'' @ [CHR 0x0D, CHR 0x0A, CHR 0x0A] @ ''b'')
     = ''a'' @ [CHR 0x0A, CHR 0x0A] @ ''b'' @ [CHR 0x0A]"
proof -
  have "concat (map (\<lambda>l. l @ [CHR 0x0A])
       (filter (\<lambda>l. \<not> startswith l ''[*]: (information) Unmatched suppression:'')
        (splitlines (''a'' @ [CHR 0x0A] @ ''[*]: (information) Unmatched suppression: anyOtherId'' @ [CHR 0x0D, CHR 0x0A, CHR 0x0A] @ ''b''))))
     = ''a'' @ [CHR 0x0A, CHR 0x0A] @ ''b'' @ [CHR 0x0A]"
    by code_simp
  then show ?thesis
    using noise_filter_lines [of "''a'' @ [CHR 0x0A] @ ''[*]: (information) Unmatched suppression: anyOtherId'' @ [CHR 0x0D, CHR 0x0A, CHR 0x0A] @ ''b''"]
    by simp
qed


text \<open>
  Claim C3. With version entries (\<^verbatim>\<open>use_hashes\<close> false) the guard of the noise filter is
  the disjunction "at least 1.48 or at most 1.49", which is true of every version that
  parses; so the filter is applied to the output of every version before it is trimmed.
\<close>

theorem filter_guard_always_true:
  assumes "Version version = Some v"
  shows "filter_guard False version =
           Inr (version_le (final_release [1, 48]) v \<or> version_le v (final_release [1, 49]))
       \<and> (version_le (final_release [1, 48]) v \<or> version_le v (final_release [1, 49]))
       \<and> filter_out False version out = Inr (strip (noise_filter out))"
proof -
  have t: "version_le (final_release [1, 48]) v \<or> version_le v (final_release [1, 49])"
    using version_le_total [of "final_release [1, 48]" v] version_le_trans [OF _ le_148_149]
    by blast
  have g: "filter_guard False version =
           Inr (version_le (final_release [1, 48]) v \<or> version_le v (final_release [1, 49]))"
    by (simp add: filter_guard_def Version_ge_Some [OF assms Version_148]
          Version_le_Some [OF assms Version_149])
  show ?thesis using t g by (simp add: filter_out_def)
qed


theorem filter_guard_always_true_witness:
  "Version ''1.38'' = Some (final_release [1, 38])
   \<and> filter_guard False ''1.38'' = Inr True
   \<and> filter_out False ''1.38'' (''[*]: (information) Unmatched suppression: unusedFunction'' @ [CHR 0x0A] @ ''x.c:1: error'') = Inr ''x.c:1: error''"
proof -
  have v: "Version ''1.38'' = Some (final_release [1, 38])" by code_simp
  have n: "strip (noise_filter (''[*]: (information) Unmatched suppression: unusedFunction'' @ [CHR 0x0A] @ ''x.c:1: error'')) = ''x.c:1: error''"
    by code_simp
  show ?thesis using filter_guard_always_true [OF v] v n by simp
qed


text \<open>
  Claim C9. With commit hashes (\<^verbatim>\<open>use_hashes\<close> true) the guard is false without looking at
  the version, and the output that is compared is the raw output, trimmed. A line about an
  unmatched suppression therefore stays in the output, and after a run with empty output
  and the same exit code it makes the comparison print the transition.
\<close>

theorem hash_mode_no_noise_filter:
  "filter_guard True version = Inr False
   \<and> filter_out True version out = Inr (strip out)
   \<and> filter_out True version (''[*]: (information) Unmatched suppression: unusedFunction'' @ [CHR 0x0A])
       = Inr ''[*]: (information) Unmatched suppression: unusedFunction''
   \<and> (\<forall>st a lbl. last_ec st = Some 0 \<and> last_out st = Some [] \<and> \<not> verbose a \<longrightarrow>
        printed (report a lbl version 0 ''[*]: (information) Unmatched suppression: unusedFunction'' st)
          = printed st @ [''0'', [], lbl])"
proof -
  have 1: "filter_guard True version = Inr False" by (simp add: filter_guard_def py_and_def)
  have 2: "\<And>out. filter_out True version out = Inr (strip out)" by (simp add: filter_out_def 1)
  have 3: "strip (''[*]: (information) Unmatched suppression: unusedFunction'' @ [CHR 0x0A]) = ''[*]: (information) Unmatched suppression: unusedFunction''"
    by code_simp
  have 4: "\<forall>st a lbl. last_ec st = Some 0 \<and> last_out st = Some [] \<and> \<not> verbose a \<longrightarrow>
        printed (report a lbl version 0 ''[*]: (information) Unmatched suppression: unusedFunction'' st)
          = printed st @ [''0'', [], lbl]"
    by (simp add: report_def print_def str_opt_def str_opt_int_def str_int_0)
  show ?thesis using 1 2 3 4 by simp
qed


theorem hash_mode_no_noise_filter_witness:
  "filter_out True ''2.13''
     (''[*]: (information) Unmatched suppression: unusedFunction'' @ [CHR 0x0A])
     = Inr ''[*]: (information) Unmatched suppression: unusedFunction''
   \<and> printed (report (default_args ''d'' ''a.c'') ''abc1234 (2.13)'' ''2.13'' 0
        ''[*]: (information) Unmatched suppression: unusedFunction''
        \<lparr>last_ec = Some 0, last_out = Some [], printed = [''def5678 (2.13)''], proc_ops = []\<rparr>)
     = [''def5678 (2.13)'', ''0'', [], ''abc1234 (2.13)'']"
proof -
  note h = hash_mode_no_noise_filter [of "''2.13''" "[]"]
  have v: "\<not> verbose (default_args ''d'' ''a.c'')"
    by (simp add: default_args_def)
  from h have g: "\<forall>st a lbl. last_ec st = Some 0 \<and> last_out st = Some [] \<and> \<not> verbose a \<longrightarrow>
        printed (report a lbl ''2.13'' 0 ''[*]: (information) Unmatched suppression: unusedFunction'' st)
          = printed st @ [''0'', [], lbl]"
    by (elim conjE)
  have "printed (report (default_args ''d'' ''a.c'') ''abc1234 (2.13)'' ''2.13'' 0
        ''[*]: (information) Unmatched suppression: unusedFunction''
        \<lparr>last_ec = Some 0, last_out = Some [], printed = [''def5678 (2.13)''], proc_ops = []\<rparr>)
     = printed \<lparr>last_ec = Some 0, last_out = Some [], printed = [''def5678 (2.13)''], proc_ops = []\<rparr>
        @ [''0'', [], ''abc1234 (2.13)'']"
    using v g [rule_format,
        of "\<lparr>last_ec = Some 0, last_out = Some [], printed = [''def5678 (2.13)''], proc_ops = []\<rparr>"
           "default_args ''d'' ''a.c''" "''abc1234 (2.13)''"]
    by simp
  moreover from h have "filter_out True ''2.13''
     (''[*]: (information) Unmatched suppression: unusedFunction'' @ [CHR 0x0A])
     = Inr ''[*]: (information) Unmatched suppression: unusedFunction''"
    by (elim conjE)
  ultimately show ?thesis by simp
qed

end
